theory Spec2Isabelle
  imports Main
begin

section \<open>Data model of \<open>main.py\<close>\<close>

text \<open>
  A turn of the conversation is the dictionary \<^verbatim>\<open>{"role": ..., "content": ...}\<close> that the
  program appends to \<^verbatim>\<open>st.session_state["messages"]\<close>. Roles are compared as strings in the
  source, so they stay strings here. The messages handed to the OpenAI client have the same
  two keys and reuse the type.
\<close>

record turn =
  role :: string
  content :: string

text \<open>\<^verbatim>\<open>types.Content(role=..., parts=[types.Part.from_text(text=...)])\<close> of the Gemini client.\<close>

record gemini_content =
  c_role :: string
  c_parts :: "string list"

text \<open>
  The exceptions (subclasses of Python's \<^verbatim>\<open>Exception\<close>) that the modelled code can meet:
  a missing dictionary key, an index out of range, and any failure that a client library
  raises, carried with its description \<^verbatim>\<open>str(e)\<close>.
\<close>

datatype py_exn = KeyError string | IndexError string | Failure string

text \<open>The five arguments of one call of \<^verbatim>\<open>save_to_firebase\<close>, under the parameter names.\<close>

record log_call =
  user_id :: "string option"
  model_name :: string
  prompt_ :: string
  full_response :: string
  interaction_type :: string

text \<open>
  What the code does to the outside world, in order: the client constructions and requests
  of the two providers, the notices shown on the page, the calls of the logger and the writes
  to the database (the timestamp key and timestamp field of a write are not modelled).
\<close>

datatype event =
    GenaiClient
  | GenerateContent string "gemini_content list" string
  | StWarning string
  | OpenAIClient
  | ChatCompletionsCreate string "turn list"
  | SaveToFirebase log_call
  | DbSet string log_call
  | StError string

text \<open>
  The collaborators of one script run. Each client library call either returns or raises:
  \<open>genai_Client\<close> and \<open>openai_Client\<close> are the constructions of the two clients from the
  secrets (\<open>None\<close>: constructed), \<open>generate_content\<close> is
  \<^verbatim>\<open>client.models.generate_content(model, contents, config).text\<close> with the system
  instruction of the config (the temperature is the constant 0.7), \<open>chat_completions_create\<close>
  is \<^verbatim>\<open>oa_client.chat.completions.create(model, messages, temperature=0.7).choices[0].message.content\<close>,
  \<open>db_ref\<close> says whether the database connection exists and \<open>db_set\<close> is the write
  \<^verbatim>\<open>db_ref.child("logs").child(clean_user_id).child(timestamp_key).set(...)\<close>.
\<close>

record env =
  genai_Client :: "py_exn option"
  generate_content :: "string \<Rightarrow> gemini_content list \<Rightarrow> string \<Rightarrow> py_exn + string"
  openai_Client :: "py_exn option"
  chat_completions_create :: "string \<Rightarrow> turn list \<Rightarrow> py_exn + string"
  db_ref :: bool
  db_set :: "string \<Rightarrow> log_call \<Rightarrow> py_exn option"

text \<open>The keys of \<^verbatim>\<open>st.session_state\<close> that the script initialises (lines 129 to 132).\<close>

record session =
  messages :: "turn list"
  feedback_pending :: bool
  authenticated :: bool
  current_user :: "string option"

definition MODEL_MAPPING :: "string \<rightharpoonup> string" where
  "MODEL_MAPPING = map_of
     [(''gemini-3-pro-preview'', ''gemini-3-pro-preview''),
      (''ChatGPT 5.2'', ''gpt-5.2-thinking'')]"

definition AUTHORIZED_STUDENT_IDS :: "string list" where
  "AUTHORIZED_STUDENT_IDS = [''Thunder'']"

section \<open>Python strings\<close>

text \<open>\<^verbatim>\<open>s.startswith(sub)\<close> and \<^verbatim>\<open>sub in s\<close> on strings.\<close>

fun startswith :: "string \<Rightarrow> string \<Rightarrow> bool" where
  "startswith [] s = True"
| "startswith (c # cs) [] = False"
| "startswith (c # cs) (d # ds) = (c = d \<and> startswith cs ds)"

fun str_in :: "string \<Rightarrow> string \<Rightarrow> bool" where
  "str_in sub [] = (sub = [])"
| "str_in sub (c # cs) = (startswith sub (c # cs) \<or> str_in sub cs)"

text \<open>
  \<^verbatim>\<open>repr(s)\<close> of a string: single quotes unless the string has a single quote and no double
  quote; the quote and the backslash are escaped, tab, newline and carriage return are
  written \<^verbatim>\<open>\t \n \r\<close>, the other control characters and DEL as \<^verbatim>\<open>\xNN\<close>. A character
  here is a byte; the bytes from 128 on (the UTF-8 encoding of the characters beyond ASCII)
  are kept as they are, which is what Python does for the printable ones. A character
  beyond ASCII that is not printable, which Python writes as an escape, is not told apart
  from them; the labels of \<open>MODEL_MAPPING\<close> and of the examples are ASCII.
\<close>

definition hexdigit :: "nat \<Rightarrow> char" where
  "hexdigit n = (''0123456789abcdef'') ! (n mod 16)"

definition repr_char :: "char \<Rightarrow> char \<Rightarrow> string" where
  "repr_char q c =
     (if c = q \<or> c = CHR 0x5C then [CHR 0x5C, c]
      else if c = CHR 0x09 then [CHR 0x5C, CHR ''t'']
      else if c = CHR 0x0A then [CHR 0x5C, CHR ''n'']
      else if c = CHR 0x0D then [CHR 0x5C, CHR ''r'']
      else if (of_char c :: nat) < 32 \<or> c = CHR 0x7F
        then [CHR 0x5C, CHR ''x'', hexdigit (of_char c div 16), hexdigit (of_char c)]
      else [c])"

definition py_repr :: "string \<Rightarrow> string" where
  "py_repr s =
     (let q = (if CHR 0x27 \<in> set s \<and> CHR 0x22 \<notin> set s then CHR 0x22 else CHR 0x27)
      in [q] @ concat (map (repr_char q) s) @ [q])"

text \<open>
  \<^verbatim>\<open>str(e)\<close>: a \<^verbatim>\<open>KeyError\<close> prints the \<^verbatim>\<open>repr\<close> of its key, the others their message.
\<close>

fun exn_str :: "py_exn \<Rightarrow> string" where
  "exn_str (KeyError k) = py_repr k"
| "exn_str (IndexError m) = m"
| "exn_str (Failure m) = m"

text \<open>\<^verbatim>\<open>str(user_id).replace(".", "_")\<close>, where the user id is a string or \<^verbatim>\<open>None\<close>.\<close>

definition clean_user_id :: "string option \<Rightarrow> string" where
  "clean_user_id u =
     map (\<lambda>c. if c = CHR ''.'' then CHR ''_'' else c)
       (case u of None \<Rightarrow> ''None'' | Some x \<Rightarrow> x)"

section \<open>The logger: \<open>save_to_firebase\<close>\<close>

text \<open>
  The body runs only with a database connection; every exception of the write is caught,
  reported with \<^verbatim>\<open>st.error\<close> and turned into the result \<^verbatim>\<open>False\<close>. Without a connection
  the function returns \<^verbatim>\<open>None\<close>. The first event records the call itself.
\<close>

definition save_to_firebase :: "env \<Rightarrow> log_call \<Rightarrow> bool option \<times> event list" where
  "save_to_firebase e lc =
     (if db_ref e then
        (case db_set e (clean_user_id (user_id lc)) lc of
           None \<Rightarrow> (Some True, [SaveToFirebase lc, DbSet (clean_user_id (user_id lc)) lc])
         | Some err \<Rightarrow>
             (Some False,
              [SaveToFirebase lc, StError (''Firebase Logging error: '' @ exn_str err)]))
      else (None, [SaveToFirebase lc]))"

primrec logger_calls :: "event list \<Rightarrow> log_call list" where
  "logger_calls [] = []"
| "logger_calls (ev # evs) =
     (case ev of SaveToFirebase lc \<Rightarrow> lc # logger_calls evs | _ \<Rightarrow> logger_calls evs)"

section \<open>The response generator: \<open>get_ai_response\<close>\<close>

text \<open>The two translations of the history (lines 81 to 86 and 110 to 113).\<close>

definition api_contents :: "turn list \<Rightarrow> gemini_content list" where
  "api_contents chat_history =
     map (\<lambda>m. \<lparr>c_role = (if role m = ''user'' then ''user'' else ''model''),
               c_parts = [content m]\<rparr>) chat_history"

definition oa_messages :: "string \<Rightarrow> turn list \<Rightarrow> turn list" where
  "oa_messages system_instruction_text chat_history =
     \<lparr>role = ''system'', content = system_instruction_text\<rparr> #
     map (\<lambda>m. \<lparr>role = (if role m = ''model'' then ''assistant'' else role m),
               content = content m\<rparr>) chat_history"

text \<open>
  The body of the outer \<^verbatim>\<open>try\<close>: construct the client, translate the history, look the
  label up in \<open>MODEL_MAPPING\<close> (a \<^verbatim>\<open>KeyError\<close> for an unknown label, raised before the
  request is sent), send the request.
\<close>

definition gemini_attempt ::
    "env \<Rightarrow> string \<Rightarrow> turn list \<Rightarrow> string \<Rightarrow> (py_exn + string) \<times> event list" where
  "gemini_attempt e model_selection chat_history system_instruction_text =
     (case genai_Client e of
        Some err \<Rightarrow> (Inl err, [GenaiClient])
      | None \<Rightarrow>
         (case MODEL_MAPPING model_selection of
            None \<Rightarrow> (Inl (KeyError model_selection), [GenaiClient])
          | Some model_id \<Rightarrow>
              (generate_content e model_id (api_contents chat_history) system_instruction_text,
               [GenaiClient,
                GenerateContent model_id (api_contents chat_history) system_instruction_text])))"

text \<open>The body of the inner \<^verbatim>\<open>try\<close>: the fallback request to the second provider.\<close>

definition openai_attempt :: "env \<Rightarrow> turn list \<Rightarrow> string \<Rightarrow> (py_exn + string) \<times> event list" where
  "openai_attempt e chat_history system_instruction_text =
     (case openai_Client e of
        Some err \<Rightarrow> (Inl err, [OpenAIClient])
      | None \<Rightarrow>
          (chat_completions_create e ''gpt-5.2'' (oa_messages system_instruction_text chat_history),
           [OpenAIClient,
            ChatCompletionsCreate ''gpt-5.2'' (oa_messages system_instruction_text chat_history)]))"

definition unavailable :: "string \<Rightarrow> bool" where
  "unavailable error_msg \<longleftrightarrow> str_in ''502'' error_msg \<or> str_in ''Bad Gateway'' error_msg"

definition fallback_warning :: string where
  "fallback_warning =
     ''Gemini is currently unavailable (502). Switching to ChatGPT 5.2 fallback...''"

text \<open>
  The whole function, with the collaborators as the interface of the providers describes
  them: a request returns a text or raises, and the notice \<^verbatim>\<open>st.warning\<close> is shown and
  returns. Its result is a sum so that a raise past the function would be the value
  \<open>Inl\<close>; the second component lists the events in order. \<open>get_ai_response_lib\<close> below
  is the same function without these two assumptions.
\<close>

definition get_ai_response ::
    "env \<Rightarrow> string \<Rightarrow> turn list \<Rightarrow> string \<Rightarrow> (py_exn + string) \<times> event list" where
  "get_ai_response e model_selection chat_history system_instruction_text =
     (case gemini_attempt e model_selection chat_history system_instruction_text of
        (Inr text, evs) \<Rightarrow> (Inr text, evs)
      | (Inl err, evs) \<Rightarrow>
          (let error_msg = exn_str err in
           if unavailable error_msg then
             (case openai_attempt e chat_history system_instruction_text of
                (Inr text, evs2) \<Rightarrow> (Inr text, evs @ [StWarning fallback_warning] @ evs2)
              | (Inl fallback_err, evs2) \<Rightarrow>
                  (Inr (''Both models failed. Gemini Error: '' @ error_msg @
                        '' | OpenAI Error: '' @ exn_str fallback_err),
                   evs @ [StWarning fallback_warning] @ evs2))
           else (Inr (''Error: '' @ error_msg), evs)))"

text \<open>The events that touch the second provider.\<close>

fun secondary_event :: "event \<Rightarrow> bool" where
  "secondary_event OpenAIClient = True"
| "secondary_event (ChatCompletionsCreate m ms) = True"
| "secondary_event ev = False"

subsection \<open>The function with the client libraries as they are typed\<close>

text \<open>
  In the client libraries the text of a response is optional: \<^verbatim>\<open>response.text\<close> and
  \<^verbatim>\<open>choices[0].message.content\<close> are a string or \<^verbatim>\<open>None\<close>, and lines 96 and 121 return
  them unconverted. \<^verbatim>\<open>st.warning\<close> (line 102) is called in the handler of the outer
  \<^verbatim>\<open>try\<close> and before the inner one, so an exception it raises leaves the function. The
  record lists the collaborators of \<open>get_ai_response\<close> with these types (\<open>None\<close> in
  \<open>l_st_warning\<close>: the call returns).
\<close>

record library =
  l_genai_Client :: "py_exn option"
  l_generate_content :: "string \<Rightarrow> gemini_content list \<Rightarrow> string \<Rightarrow> py_exn + string option"
  l_st_warning :: "string \<Rightarrow> py_exn option"
  l_openai_Client :: "py_exn option"
  l_chat_completions_create :: "string \<Rightarrow> turn list \<Rightarrow> py_exn + string option"

text \<open>The two \<^verbatim>\<open>try\<close> bodies and the function, statement by statement as above.\<close>

definition gemini_attempt_lib ::
    "library \<Rightarrow> string \<Rightarrow> turn list \<Rightarrow> string \<Rightarrow> (py_exn + string option) \<times> event list" where
  "gemini_attempt_lib L model_selection chat_history system_instruction_text =
     (case l_genai_Client L of
        Some err \<Rightarrow> (Inl err, [GenaiClient])
      | None \<Rightarrow>
         (case MODEL_MAPPING model_selection of
            None \<Rightarrow> (Inl (KeyError model_selection), [GenaiClient])
          | Some model_id \<Rightarrow>
              (l_generate_content L model_id (api_contents chat_history) system_instruction_text,
               [GenaiClient,
                GenerateContent model_id (api_contents chat_history) system_instruction_text])))"

definition openai_attempt_lib ::
    "library \<Rightarrow> turn list \<Rightarrow> string \<Rightarrow> (py_exn + string option) \<times> event list" where
  "openai_attempt_lib L chat_history system_instruction_text =
     (case l_openai_Client L of
        Some err \<Rightarrow> (Inl err, [OpenAIClient])
      | None \<Rightarrow>
          (l_chat_completions_create L ''gpt-5.2''
             (oa_messages system_instruction_text chat_history),
           [OpenAIClient,
            ChatCompletionsCreate ''gpt-5.2'' (oa_messages system_instruction_text chat_history)]))"

definition get_ai_response_lib ::
    "library \<Rightarrow> string \<Rightarrow> turn list \<Rightarrow> string \<Rightarrow> (py_exn + string option) \<times> event list" where
  "get_ai_response_lib L model_selection chat_history system_instruction_text =
     (case gemini_attempt_lib L model_selection chat_history system_instruction_text of
        (Inr text, evs) \<Rightarrow> (Inr text, evs)
      | (Inl err, evs) \<Rightarrow>
          (let error_msg = exn_str err in
           if unavailable error_msg then
             (case l_st_warning L fallback_warning of
                Some warning_err \<Rightarrow> (Inl warning_err, evs @ [StWarning fallback_warning])
              | None \<Rightarrow>
                 (case openai_attempt_lib L chat_history system_instruction_text of
                    (Inr text, evs2) \<Rightarrow> (Inr text, evs @ [StWarning fallback_warning] @ evs2)
                  | (Inl fallback_err, evs2) \<Rightarrow>
                      (Inr (Some (''Both models failed. Gemini Error: '' @ error_msg @
                                  '' | OpenAI Error: '' @ exn_str fallback_err)),
                       evs @ [StWarning fallback_warning] @ evs2)))
           else (Inr (Some (''Error: '' @ error_msg)), evs)))"

text \<open>
  The collaborators of \<open>env\<close> seen as a \<open>library\<close>: every response carries its text and
  the notice returns.
\<close>

definition library_of :: "env \<Rightarrow> library" where
  "library_of e =
     \<lparr>l_genai_Client = genai_Client e,
      l_generate_content = (\<lambda>model_id contents sys. map_sum id Some (generate_content e model_id contents sys)),
      l_st_warning = (\<lambda>msg. None),
      l_openai_Client = openai_Client e,
      l_chat_completions_create = (\<lambda>model_id msgs. map_sum id Some (chat_completions_create e model_id msgs))\<rparr>"

section \<open>The feedback controller: \<open>handle_feedback\<close>\<close>

text \<open>
  The template of line 143; \<open>CHR 0x27\<close> is the single quote.
\<close>

definition clarification_prompt :: "string \<Rightarrow> string" where
  "clarification_prompt last_ai_reply =
     ''I don'' @ [CHR 0x27] @ ''t understand the previous explanation: '' @ [CHR 0x27] @
     last_ai_reply @ [CHR 0x27] @ ''. Please break it down further.''"

text \<open>
  The callback of the two feedback buttons. \<open>selected_label\<close> and
  \<open>system_instruction_input\<close> are the globals that the sidebar sets. Reading
  \<^verbatim>\<open>messages[-2]\<close> raises \<^verbatim>\<open>IndexError\<close> when the store has fewer than two turns, before
  anything else happens. The result is the outcome (\<open>Inl\<close>: an exception left the function),
  the session state when the function is left, and the events.
\<close>

definition handle_feedback ::
    "env \<Rightarrow> string \<Rightarrow> string \<Rightarrow> bool \<Rightarrow> session \<Rightarrow> (py_exn + unit) \<times> session \<times> event list" where
  "handle_feedback e selected_label system_instruction_input understood s =
     (let interaction = (if understood then ''UNDERSTOOD_FEEDBACK'' else ''CLARIFICATION_REQUESTED'')
      in
      if length (messages s) < 2 then (Inl (IndexError ''list index out of range''), s, [])
      else
        let last_user_prompt = content (messages s ! (length (messages s) - 2));
            last_ai_reply = content (last (messages s));
            (r1, evs1) = save_to_firebase e
               \<lparr>user_id = current_user s, model_name = selected_label, prompt_ = last_ai_reply,
                full_response = interaction, interaction_type = ''FEEDBACK_EVENT''\<rparr>
        in
        if \<not> understood then
          let prompt = clarification_prompt last_ai_reply;
              s1 = s\<lparr>messages := messages s @ [\<lparr>role = ''user'', content = prompt\<rparr>]\<rparr>
          in
          (case get_ai_response e selected_label (messages s1) system_instruction_input of
             (Inl err, evs2) \<Rightarrow> (Inl err, s1, evs1 @ evs2)
           | (Inr ai_reply, evs2) \<Rightarrow>
               let (r2, evs3) = save_to_firebase e
                     \<lparr>user_id = current_user s1, model_name = selected_label, prompt_ = prompt,
                      full_response = ai_reply, interaction_type = ''CLARIFICATION_RESPONSE''\<rparr>;
                   s2 = s1\<lparr>messages := messages s1 @ [\<lparr>role = ''assistant'', content = ai_reply\<rparr>]\<rparr>;
                   s3 = s2\<lparr>feedback_pending := True\<rparr>
               in (Inr (), s3, evs1 @ evs2 @ evs3))
        else (Inr (), s\<lparr>feedback_pending := False\<rparr>, evs1))"

section \<open>The script: session start, sidebar buttons, chat input\<close>

text \<open>Lines 129 to 132, on a session state without keys.\<close>

definition initial_session :: session where
  "initial_session =
     \<lparr>messages = [], feedback_pending = False, authenticated = False, current_user = None\<rparr>"

text \<open>The handler of the Clear Chat button: the two assignments of lines 189 and 190.\<close>

definition clear_chat :: "session \<Rightarrow> session" where
  "clear_chat s =
     (let s1 = s\<lparr>messages := []\<rparr>;
          s2 = s1\<lparr>feedback_pending := False\<rparr>
      in s2)"


text \<open>
  \<^verbatim>\<open>st.chat_input(placeholder, disabled=...)\<close>: the widget of the framework returns the
  text that the user submitted in this run, and a disabled widget submits nothing.
\<close>

definition st_chat_input :: "bool \<Rightarrow> string option \<Rightarrow> string option" where
  "st_chat_input disabled submitted = (if disabled then None else submitted)"

text \<open>
  Lines 234 to 268: the chat input and what follows a prompt. \<^verbatim>\<open>if prompt:\<close> is false for
  \<^verbatim>\<open>None\<close> and for the empty string.
\<close>

definition chat_section ::
    "env \<Rightarrow> string \<Rightarrow> string \<Rightarrow> string option \<Rightarrow> session \<Rightarrow> (py_exn + unit) \<times> session \<times> event list" where
  "chat_section e selected_label system_instruction_input submitted s =
     (case st_chat_input (feedback_pending s) submitted of
        None \<Rightarrow> (Inr (), s, [])
      | Some prompt \<Rightarrow>
          if prompt = [] then (Inr (), s, [])
          else
            let s1 = s\<lparr>messages := messages s @ [\<lparr>role = ''user'', content = prompt\<rparr>]\<rparr>
            in
            (case get_ai_response e selected_label (messages s1) system_instruction_input of
               (Inl err, evs) \<Rightarrow> (Inl err, s1, evs)
             | (Inr reply, evs) \<Rightarrow>
                 let (r, evs2) = save_to_firebase e
                       \<lparr>user_id = current_user s1, model_name = selected_label, prompt_ = prompt,
                        full_response = reply, interaction_type = ''INITIAL_QUERY''\<rparr>;
                     s2 = s1\<lparr>messages := messages s1 @ [\<lparr>role = ''assistant'', content = reply\<rparr>]\<rparr>;
                     s3 = s2\<lparr>feedback_pending := True\<rparr>
                 in (Inr (), s3, evs @ evs2)))"

text \<open>
  One interaction of the user with the page, and the script run it triggers. The Login
  button exists only when nobody is logged in; Logout, Clear Chat and the chat input only
  when somebody is; the feedback buttons only while feedback is pending. Logout empties the
  session state and the rerun initialises it again. Every interaction comes with the
  collaborators of its run and with the values of the two globals, which are left arbitrary
  (the sidebar offers fewer).
\<close>

datatype action =
    Login string
  | Logout
  | ClearChat
  | ChatInput string
  | FeedbackClick bool

fun step :: "env \<times> string \<times> string \<times> action \<Rightarrow> session \<Rightarrow> session" where
  "step (e, label, sys, Login u_id) s =
     (if \<not> authenticated s \<and> u_id \<in> set AUTHORIZED_STUDENT_IDS
      then s\<lparr>authenticated := True, current_user := Some u_id\<rparr> else s)"
| "step (e, label, sys, Logout) s = (if authenticated s then initial_session else s)"
| "step (e, label, sys, ClearChat) s = (if authenticated s then clear_chat s else s)"
| "step (e, label, sys, ChatInput submitted) s =
     (if authenticated s then fst (snd (chat_section e label sys (Some submitted) s)) else s)"
| "step (e, label, sys, FeedbackClick understood) s =
     (if authenticated s \<and> feedback_pending s
      then fst (snd (handle_feedback e label sys understood s)) else s)"

fun run :: "(env \<times> string \<times> string \<times> action) list \<Rightarrow> session \<Rightarrow> session" where
  "run [] s = s"
| "run (i # rest) s = run rest (step i s)"

text \<open>Every turn of a history has the role \<^verbatim>\<open>"user"\<close> or \<^verbatim>\<open>"assistant"\<close>.\<close>

definition roles_ok :: "turn list \<Rightarrow> bool" where
  "roles_ok h = list_all (\<lambda>m. role m = ''user'' \<or> role m = ''assistant'') h"

section \<open>The invariant of the session state\<close>

text \<open>
  While feedback is pending the store holds at least the prompt and the reply under
  judgement, and every turn is a user or an assistant turn.
\<close>

definition store_inv :: "session \<Rightarrow> bool" where
  "store_inv s \<longleftrightarrow> (feedback_pending s \<longrightarrow> 2 \<le> length (messages s)) \<and> roles_ok (messages s)"

section \<open>Concrete collaborators and sessions\<close>

text \<open>
  Four sets of collaborators: the first provider answers; it fails with a 502 and the second
  provider answers; both fail; the first provider fails for another reason.
\<close>

definition demo_env :: env where
  "demo_env =
     \<lparr>genai_Client = None,
      generate_content = (\<lambda>model_id contents sys. Inr ''Fixed costs divided by unit margin.''),
      openai_Client = None,
      chat_completions_create = (\<lambda>model_id msgs. Inr ''The sales level that covers all costs.''),
      db_ref = True,
      db_set = (\<lambda>uid lc. None)\<rparr>"

definition env_502 :: env where
  "env_502 =
     \<lparr>genai_Client = None,
      generate_content = (\<lambda>model_id contents sys. Inl (Failure ''502 Bad Gateway'')),
      openai_Client = None,
      chat_completions_create = (\<lambda>model_id msgs. Inr ''The sales level that covers all costs.''),
      db_ref = True,
      db_set = (\<lambda>uid lc. None)\<rparr>"

definition env_down :: env where
  "env_down =
     \<lparr>genai_Client = None,
      generate_content = (\<lambda>model_id contents sys. Inl (Failure ''502 Bad Gateway'')),
      openai_Client = None,
      chat_completions_create = (\<lambda>model_id msgs. Inl (Failure ''Connection error.'')),
      db_ref = True,
      db_set = (\<lambda>uid lc. None)\<rparr>"

definition env_quota :: env where
  "env_quota =
     \<lparr>genai_Client = None,
      generate_content = (\<lambda>model_id contents sys. Inl (Failure ''429 RESOURCE_EXHAUSTED'')),
      openai_Client = None,
      chat_completions_create = (\<lambda>model_id msgs. Inr ''The sales level that covers all costs.''),
      db_ref = True,
      db_set = (\<lambda>uid lc. None)\<rparr>"




text \<open>
  A one-turn history, a session after one exchange, a session after login, and a sequence
  of interactions: login, a first prompt, and a request for clarification that the second
  provider answers.
\<close>

definition demo_history :: "turn list" where
  "demo_history = [\<lparr>role = ''user'', content = ''What is a break-even point?''\<rparr>]"

definition demo_session :: session where
  "demo_session =
     \<lparr>messages = [\<lparr>role = ''user'', content = ''What is a break-even point?''\<rparr>,
                  \<lparr>role = ''assistant'', content = ''Fixed costs divided by unit margin.''\<rparr>],
      feedback_pending = True, authenticated = True, current_user = Some ''Thunder''\<rparr>"

definition open_session :: session where
  "open_session =
     \<lparr>messages = [], feedback_pending = False, authenticated = True,
      current_user = Some ''Thunder''\<rparr>"

definition demo_run :: "(env \<times> string \<times> string \<times> action) list" where
  "demo_run =
     [(demo_env, ''gemini-3-pro-preview'', ''Business Planning Assistant'', Login ''Thunder''),
      (demo_env, ''gemini-3-pro-preview'', ''Business Planning Assistant'',
         ChatInput ''What is a break-even point?''),
      (env_502, ''gemini-3-pro-preview'', ''Business Planning Assistant'', FeedbackClick False)]"

section \<open>Facts about the string operations and the event lists\<close>

lemma startswith_iff: "startswith sub s \<longleftrightarrow> (\<exists>q. s = sub @ q)"
  by (induction sub s rule: startswith.induct) auto

lemma str_in_iff: "str_in sub s \<longleftrightarrow> (\<exists>p q. s = p @ sub @ q)"
proof (induction s)
  case Nil
  then show ?case by auto
next
  case (Cons c cs)
  show ?case
  proof
    assume "str_in sub (c # cs)"
    then consider "startswith sub (c # cs)" | "str_in sub cs" by auto
    then show "\<exists>p q. c # cs = p @ sub @ q"
    proof cases
      case 1
      then obtain q where "c # cs = sub @ q" by (auto simp: startswith_iff)
      then have "c # cs = [] @ sub @ q" by simp
      then show ?thesis by blast
    next
      case 2
      then obtain p q where "cs = p @ sub @ q" using Cons.IH by auto
      then have "c # cs = (c # p) @ sub @ q" by simp
      then show ?thesis by blast
    qed
  next
    assume "\<exists>p q. c # cs = p @ sub @ q"
    then obtain p q where pq: "c # cs = p @ sub @ q" by blast
    show "str_in sub (c # cs)"
    proof (cases p)
      case Nil
      with pq have "startswith sub (c # cs)" by (auto simp: startswith_iff)
      then show ?thesis by simp
    next
      case (Cons a p')
      with pq have "cs = p' @ sub @ q" by simp
      then have "str_in sub cs" using Cons.IH by blast
      then show ?thesis by simp
    qed
  qed
qed


lemma logger_calls_save_to_firebase: "logger_calls (snd (save_to_firebase e lc)) = [lc]"
  by (simp add: save_to_firebase_def split: option.splits)

section \<open>Properties of \<open>get_ai_response\<close>\<close>

lemma get_ai_response_Inr: "\<exists>reply. fst (get_ai_response e label h sys) = Inr reply"
proof (cases "gemini_attempt e label h sys")
  case (Pair r evs)
  show ?thesis
  proof (cases r)
    case (Inr t)
    with Pair show ?thesis by (simp add: get_ai_response_def)
  next
    case (Inl err)
    show ?thesis
    proof (cases "unavailable (exn_str err)")
      case False
      with Pair Inl show ?thesis by (simp add: get_ai_response_def)
    next
      case True
      then show ?thesis
        using Pair Inl
        by (cases "openai_attempt e h sys"; cases "fst (openai_attempt e h sys)")
           (auto simp: get_ai_response_def)
    qed
  qed
qed




text \<open>
  Claim C3. For every history and every label of \<open>MODEL_MAPPING\<close>: when the client of the
  first provider is constructed and its request returns a text, \<open>get_ai_response\<close> returns
  exactly that text, and no event of the run touches the second provider.
\<close>

theorem primary_success:
  assumes "MODEL_MAPPING label = Some model_id"
    and "genai_Client e = None"
    and "generate_content e model_id (api_contents h) sys = Inr text"
  shows "fst (get_ai_response e label h sys) = Inr text \<and>
         filter secondary_event (snd (get_ai_response e label h sys)) = []"
  using assms by (simp add: get_ai_response_def gemini_attempt_def)

theorem primary_success_witness:
  "MODEL_MAPPING ''gemini-3-pro-preview'' = Some ''gemini-3-pro-preview'' \<and>
   genai_Client demo_env = None \<and>
   fst (get_ai_response demo_env ''gemini-3-pro-preview'' demo_history
          ''Business Planning Assistant'') = Inr ''Fixed costs divided by unit margin.'' \<and>
   filter secondary_event (snd (get_ai_response demo_env ''gemini-3-pro-preview'' demo_history
          ''Business Planning Assistant'')) = []"
proof -
  have h1: "MODEL_MAPPING ''gemini-3-pro-preview'' = Some ''gemini-3-pro-preview''"
    by (simp add: MODEL_MAPPING_def)
  have h2: "genai_Client demo_env = None"
    by (simp add: demo_env_def)
  have h3: "generate_content demo_env ''gemini-3-pro-preview'' (api_contents demo_history)
              ''Business Planning Assistant'' = Inr ''Fixed costs divided by unit margin.''"
    by (simp add: demo_env_def)
  show ?thesis using h1 h2 primary_success [OF h1 h2 h3] by simp
qed

text \<open>
  Claim C4. For every history: when the attempt on the first provider raises an exception
  whose description contains \<^verbatim>\<open>502\<close> or \<^verbatim>\<open>Bad Gateway\<close>, the client of the second
  provider is constructed and its request, sent for the model \<^verbatim>\<open>gpt-5.2\<close> with the
  translated history, returns a text, \<open>get_ai_response\<close> returns exactly that text.
\<close>

theorem fallback_success:
  assumes "fst (gemini_attempt e label h sys) = Inl err"
    and "str_in ''502'' (exn_str err) \<or> str_in ''Bad Gateway'' (exn_str err)"
    and "openai_Client e = None"
    and "chat_completions_create e ''gpt-5.2'' (oa_messages sys h) = Inr text"
  shows "fst (get_ai_response e label h sys) = Inr text"
  using assms
  by (auto simp: get_ai_response_def openai_attempt_def unavailable_def Let_def
      split: prod.splits sum.splits)

theorem fallback_success_witness:
  "fst (gemini_attempt env_502 ''gemini-3-pro-preview'' demo_history ''Business Planning Assistant'')
     = Inl (Failure ''502 Bad Gateway'') \<and>
   str_in ''502'' (exn_str (Failure ''502 Bad Gateway'')) \<and>
   openai_Client env_502 = None \<and>
   chat_completions_create env_502 ''gpt-5.2''
     (oa_messages ''Business Planning Assistant'' demo_history)
     = Inr ''The sales level that covers all costs.'' \<and>
   fst (get_ai_response env_502 ''gemini-3-pro-preview'' demo_history ''Business Planning Assistant'')
     = Inr ''The sales level that covers all costs.''"
proof -
  have h1: "fst (gemini_attempt env_502 ''gemini-3-pro-preview'' demo_history
              ''Business Planning Assistant'') = Inl (Failure ''502 Bad Gateway'')"
    by (simp add: gemini_attempt_def env_502_def MODEL_MAPPING_def)
  have h2: "str_in ''502'' (exn_str (Failure ''502 Bad Gateway''))
            \<or> str_in ''Bad Gateway'' (exn_str (Failure ''502 Bad Gateway''))"
    by simp
  have h3: "openai_Client env_502 = None"
    by (simp add: env_502_def)
  have h4: "chat_completions_create env_502 ''gpt-5.2''
              (oa_messages ''Business Planning Assistant'' demo_history)
              = Inr ''The sales level that covers all costs.''"
    by (simp add: env_502_def)
  have h5: "str_in ''502'' (exn_str (Failure ''502 Bad Gateway''))" by simp
  show ?thesis using h1 h3 h4 h5 fallback_success [OF h1 h2 h3 h4] by simp
qed

text \<open>
  Claim C5. For every history: when the attempt on the first provider raises with a
  description of the unavailability class and the attempt on the second provider raises
  too, \<open>get_ai_response\<close> returns (and does not raise) the text
  \<^verbatim>\<open>Both models failed. Gemini Error: ... | OpenAI Error: ...\<close>, which contains the first
  description and, after it, the second.
\<close>

theorem both_fail:
  assumes "fst (gemini_attempt e label h sys) = Inl err"
    and "unavailable (exn_str err)"
    and "fst (openai_attempt e h sys) = Inl fallback_err"
  shows "\<exists>text p q r.
           fst (get_ai_response e label h sys) = Inr text \<and>
           text = ''Both models failed. Gemini Error: '' @ exn_str err @
                  '' | OpenAI Error: '' @ exn_str fallback_err \<and>
           text = p @ exn_str err @ q @ exn_str fallback_err @ r"
proof -
  let ?text = "''Both models failed. Gemini Error: '' @ exn_str err @
               '' | OpenAI Error: '' @ exn_str fallback_err"
  have "fst (get_ai_response e label h sys) = Inr ?text"
    using assms by (auto simp: get_ai_response_def Let_def split: prod.splits sum.splits)
  moreover have "?text = ''Both models failed. Gemini Error: '' @ exn_str err @
      '' | OpenAI Error: '' @ exn_str fallback_err @ []"
    by simp
  ultimately show ?thesis by blast
qed

theorem both_fail_witness:
  "fst (gemini_attempt env_down ''gemini-3-pro-preview'' demo_history ''Business Planning Assistant'')
     = Inl (Failure ''502 Bad Gateway'') \<and>
   unavailable (exn_str (Failure ''502 Bad Gateway'')) \<and>
   fst (openai_attempt env_down demo_history ''Business Planning Assistant'')
     = Inl (Failure ''Connection error.'') \<and>
   fst (get_ai_response env_down ''gemini-3-pro-preview'' demo_history ''Business Planning Assistant'')
     = Inr ''Both models failed. Gemini Error: 502 Bad Gateway | OpenAI Error: Connection error.''"
proof -
  have h1: "fst (gemini_attempt env_down ''gemini-3-pro-preview'' demo_history
              ''Business Planning Assistant'') = Inl (Failure ''502 Bad Gateway'')"
    by (simp add: gemini_attempt_def env_down_def MODEL_MAPPING_def)
  have h2: "unavailable (exn_str (Failure ''502 Bad Gateway''))"
    by (simp add: unavailable_def)
  have h3: "fst (openai_attempt env_down demo_history ''Business Planning Assistant'')
              = Inl (Failure ''Connection error.'')"
    by (simp add: openai_attempt_def env_down_def)
  show ?thesis using h1 h2 h3 both_fail [OF h1 h2 h3] by simp
qed

text \<open>
  Claim C6. For every history: when the attempt on the first provider raises with a
  description that contains neither \<^verbatim>\<open>502\<close> nor \<^verbatim>\<open>Bad Gateway\<close>, \<open>get_ai_response\<close> returns
  the text \<^verbatim>\<open>Error: ...\<close>, which contains that description, and no event of the run touches
  the second provider.
\<close>

theorem other_failure:
  assumes "fst (gemini_attempt e label h sys) = Inl err"
    and "\<not> str_in ''502'' (exn_str err)"
    and "\<not> str_in ''Bad Gateway'' (exn_str err)"
  shows "fst (get_ai_response e label h sys) = Inr (''Error: '' @ exn_str err) \<and>
         str_in (exn_str err) (''Error: '' @ exn_str err) \<and>
         filter secondary_event (snd (get_ai_response e label h sys)) = []"
proof -
  have ev: "filter secondary_event (snd (gemini_attempt e label h sys)) = []"
    by (simp add: gemini_attempt_def split: option.splits)
  have "''Error: '' @ exn_str err = ''Error: '' @ exn_str err @ []" by simp
  then have "str_in (exn_str err) (''Error: '' @ exn_str err)"
    unfolding str_in_iff by blast
  then show ?thesis
    using assms ev
    by (auto simp: get_ai_response_def unavailable_def Let_def split: prod.splits sum.splits)
qed

theorem other_failure_witness:
  "fst (gemini_attempt env_quota ''gemini-3-pro-preview'' demo_history ''Business Planning Assistant'')
     = Inl (Failure ''429 RESOURCE_EXHAUSTED'') \<and>
   \<not> str_in ''502'' (exn_str (Failure ''429 RESOURCE_EXHAUSTED'')) \<and>
   \<not> str_in ''Bad Gateway'' (exn_str (Failure ''429 RESOURCE_EXHAUSTED'')) \<and>
   fst (get_ai_response env_quota ''gemini-3-pro-preview'' demo_history ''Business Planning Assistant'')
     = Inr ''Error: 429 RESOURCE_EXHAUSTED'' \<and>
   filter secondary_event (snd (get_ai_response env_quota ''gemini-3-pro-preview'' demo_history
     ''Business Planning Assistant'')) = []"
proof -
  have h1: "fst (gemini_attempt env_quota ''gemini-3-pro-preview'' demo_history
              ''Business Planning Assistant'') = Inl (Failure ''429 RESOURCE_EXHAUSTED'')"
    by (simp add: gemini_attempt_def env_quota_def MODEL_MAPPING_def)
  have h2: "\<not> str_in ''502'' (exn_str (Failure ''429 RESOURCE_EXHAUSTED''))"
    by simp
  have h3: "\<not> str_in ''Bad Gateway'' (exn_str (Failure ''429 RESOURCE_EXHAUSTED''))"
    by simp
  show ?thesis using h1 h2 h3 other_failure [OF h1 h2 h3] by simp
qed

lemma get_ai_response_lib_library_of:
  "get_ai_response_lib (library_of e) label h sys =
     (map_sum id Some (fst (get_ai_response e label h sys)), snd (get_ai_response e label h sys))"
proof -
  have g: "gemini_attempt_lib (library_of e) label h sys =
             (map_sum id Some (fst (gemini_attempt e label h sys)), snd (gemini_attempt e label h sys))"
    by (simp add: gemini_attempt_lib_def gemini_attempt_def library_of_def split: option.splits)
  have o: "openai_attempt_lib (library_of e) h sys =
             (map_sum id Some (fst (openai_attempt e h sys)), snd (openai_attempt e h sys))"
    by (simp add: openai_attempt_lib_def openai_attempt_def library_of_def split: option.splits)
  have w: "l_st_warning (library_of e) fallback_warning = None"
    by (simp add: library_of_def)
  show ?thesis
    unfolding get_ai_response_lib_def get_ai_response_def g o w
    by (cases "gemini_attempt e label h sys"; cases "fst (gemini_attempt e label h sys)";
        cases "openai_attempt e h sys"; cases "fst (openai_attempt e h sys)")
       (auto simp: Let_def)
qed




section \<open>Properties of \<open>handle_feedback\<close>\<close>

lemma understood_branch_eq:
  assumes "2 \<le> length (messages s)"
  shows "handle_feedback e label sys True s =
           (Inr (), s\<lparr>feedback_pending := False\<rparr>,
            snd (save_to_firebase e
              \<lparr>user_id = current_user s, model_name = label,
               prompt_ = content (last (messages s)),
               full_response = ''UNDERSTOOD_FEEDBACK'', interaction_type = ''FEEDBACK_EVENT''\<rparr>))"
  using assms by (simp add: handle_feedback_def Let_def split: prod.splits)

lemma clarification_branch_eq:
  assumes "2 \<le> length (messages s)"
    and "fst (get_ai_response e label
           (messages s @ [\<lparr>role = ''user'',
              content = clarification_prompt (content (last (messages s)))\<rparr>]) sys) = Inr reply"
  shows "handle_feedback e label sys False s =
           (Inr (),
            s\<lparr>messages := messages s @
                 [\<lparr>role = ''user'', content = clarification_prompt (content (last (messages s)))\<rparr>,
                  \<lparr>role = ''assistant'', content = reply\<rparr>],
              feedback_pending := True\<rparr>,
            snd (save_to_firebase e
              \<lparr>user_id = current_user s, model_name = label,
               prompt_ = content (last (messages s)),
               full_response = ''CLARIFICATION_REQUESTED'', interaction_type = ''FEEDBACK_EVENT''\<rparr>) @
            snd (get_ai_response e label
               (messages s @ [\<lparr>role = ''user'',
                  content = clarification_prompt (content (last (messages s)))\<rparr>]) sys) @
            snd (save_to_firebase e
              \<lparr>user_id = current_user s, model_name = label,
               prompt_ = clarification_prompt (content (last (messages s))),
               full_response = reply, interaction_type = ''CLARIFICATION_RESPONSE''\<rparr>))"
  using assms by (auto simp: handle_feedback_def Let_def split: prod.splits sum.splits)

text \<open>
  Claim C1, as the code has it. For every session state with pending feedback and at least
  two turns, \<open>handle_feedback\<close> with \<open>understood = True\<close> returns, changes nothing but the
  flag, which becomes false, and calls the logger exactly once. The call has the
  interaction type \<^verbatim>\<open>FEEDBACK_EVENT\<close>; the word \<^verbatim>\<open>UNDERSTOOD_FEEDBACK\<close> is its response
  field and the last reply of the assistant its prompt field.
\<close>

theorem handle_feedback_understood:
  assumes "feedback_pending s" and "2 \<le> length (messages s)"
  shows "fst (handle_feedback e label sys True s) = Inr () \<and>
         fst (snd (handle_feedback e label sys True s)) = s\<lparr>feedback_pending := False\<rparr> \<and>
         \<not> feedback_pending (fst (snd (handle_feedback e label sys True s))) \<and>
         logger_calls (snd (snd (handle_feedback e label sys True s))) =
           [\<lparr>user_id = current_user s, model_name = label,
             prompt_ = content (last (messages s)),
             full_response = ''UNDERSTOOD_FEEDBACK'', interaction_type = ''FEEDBACK_EVENT''\<rparr>]"
  using assms(2)
  by (simp add: understood_branch_eq logger_calls_save_to_firebase)

theorem handle_feedback_understood_witness:
  "feedback_pending demo_session \<and> 2 \<le> length (messages demo_session) \<and>
   fst (snd (handle_feedback demo_env ''gemini-3-pro-preview'' ''Business Planning Assistant''
     True demo_session)) = demo_session\<lparr>feedback_pending := False\<rparr> \<and>
   logger_calls (snd (snd (handle_feedback demo_env ''gemini-3-pro-preview''
     ''Business Planning Assistant'' True demo_session))) =
     [\<lparr>user_id = Some ''Thunder'', model_name = ''gemini-3-pro-preview'',
       prompt_ = ''Fixed costs divided by unit margin.'',
       full_response = ''UNDERSTOOD_FEEDBACK'', interaction_type = ''FEEDBACK_EVENT''\<rparr>]"
proof -
  have h1: "feedback_pending demo_session" by (simp add: demo_session_def)
  have h2: "2 \<le> length (messages demo_session)" by (simp add: demo_session_def)
  have h3: "current_user demo_session = Some ''Thunder''" by (simp add: demo_session_def)
  have h4: "content (last (messages demo_session)) = ''Fixed costs divided by unit margin.''"
    by (simp add: demo_session_def)
  show ?thesis
    using h1 h2 h3 h4
      handle_feedback_understood [OF h1 h2, of demo_env "''gemini-3-pro-preview''"
        "''Business Planning Assistant''"]
    by simp
qed

text \<open>
  The interaction type of that call is not \<^verbatim>\<open>UNDERSTOOD_FEEDBACK\<close>: line 140 passes the
  literal \<^verbatim>\<open>"FEEDBACK_EVENT"\<close> as the fifth argument.
\<close>

theorem understood_kind_counterexample:
  "feedback_pending demo_session \<and> 2 \<le> length (messages demo_session) \<and>
   map interaction_type (logger_calls (snd (snd (handle_feedback demo_env ''gemini-3-pro-preview''
     ''Business Planning Assistant'' True demo_session)))) = [''FEEDBACK_EVENT''] \<and>
   map interaction_type (logger_calls (snd (snd (handle_feedback demo_env ''gemini-3-pro-preview''
     ''Business Planning Assistant'' True demo_session)))) \<noteq> [''UNDERSTOOD_FEEDBACK'']"
  by (simp add: handle_feedback_def save_to_firebase_def demo_session_def demo_env_def Let_def)




section \<open>Properties of the script\<close>

lemma roles_ok_append: "roles_ok (xs @ ys) \<longleftrightarrow> roles_ok xs \<and> roles_ok ys"
  by (simp add: roles_ok_def)

lemma chat_section_accept_eq:
  assumes "\<not> feedback_pending s" and "p \<noteq> []"
    and "fst (get_ai_response e label (messages s @ [\<lparr>role = ''user'', content = p\<rparr>]) sys) = Inr reply"
  shows "chat_section e label sys (Some p) s =
           (Inr (),
            s\<lparr>messages := messages s @
                 [\<lparr>role = ''user'', content = p\<rparr>, \<lparr>role = ''assistant'', content = reply\<rparr>],
              feedback_pending := True\<rparr>,
            snd (get_ai_response e label (messages s @ [\<lparr>role = ''user'', content = p\<rparr>]) sys) @
            snd (save_to_firebase e
              \<lparr>user_id = current_user s, model_name = label, prompt_ = p,
               full_response = reply, interaction_type = ''INITIAL_QUERY''\<rparr>))"
  using assms
  by (auto simp: chat_section_def st_chat_input_def Let_def split: prod.splits sum.splits)

lemma chat_section_pending_eq:
  assumes "feedback_pending s"
  shows "chat_section e label sys submitted s = (Inr (), s, [])"
  using assms by (simp add: chat_section_def st_chat_input_def)

lemma store_inv_handle_feedback:
  assumes "store_inv s"
  shows "store_inv (fst (snd (handle_feedback e label sys understood s)))"
proof (cases "2 \<le> length (messages s)")
  case False
  then show ?thesis using assms by (simp add: handle_feedback_def)
next
  case True
  show ?thesis
  proof (cases understood)
    case True
    with \<open>2 \<le> length (messages s)\<close> assms show ?thesis
      by (simp add: understood_branch_eq store_inv_def)
  next
    case False
    obtain reply where "fst (get_ai_response e label
           (messages s @ [\<lparr>role = ''user'',
              content = clarification_prompt (content (last (messages s)))\<rparr>]) sys) = Inr reply"
      using get_ai_response_Inr by blast
    with False \<open>2 \<le> length (messages s)\<close> assms show ?thesis
      by (simp add: clarification_branch_eq store_inv_def roles_ok_append)
         (simp add: roles_ok_def)
  qed
qed

lemma store_inv_chat_section:
  assumes "store_inv s"
  shows "store_inv (fst (snd (chat_section e label sys submitted s)))"
proof (cases "feedback_pending s \<or> submitted = None \<or> submitted = Some []")
  case True
  then show ?thesis using assms
    by (auto simp: chat_section_def st_chat_input_def)
next
  case False
  then obtain p where p: "submitted = Some p" "p \<noteq> []" "\<not> feedback_pending s" by auto
  obtain reply where
    "fst (get_ai_response e label (messages s @ [\<lparr>role = ''user'', content = p\<rparr>]) sys) = Inr reply"
    using get_ai_response_Inr by blast
  with p assms show ?thesis
    by (simp add: chat_section_accept_eq store_inv_def roles_ok_append)
       (simp add: roles_ok_def)
qed

lemma store_inv_initial: "store_inv initial_session"
  by (simp add: store_inv_def initial_session_def roles_ok_def)

lemma store_inv_step:
  assumes "store_inv s"
  shows "store_inv (step i s)"
proof -
  obtain e label sys a where i: "i = (e, label, sys, a)" by (cases i) auto
  show ?thesis
  proof (cases a)
    case (Login u)
    with i assms show ?thesis by (simp add: store_inv_def)
  next
    case Logout
    with i assms show ?thesis by (simp add: store_inv_initial)
  next
    case ClearChat
    with i assms show ?thesis by (simp add: store_inv_def clear_chat_def roles_ok_def)
  next
    case (ChatInput p)
    with i assms show ?thesis by (simp add: store_inv_chat_section)
  next
    case (FeedbackClick u)
    with i assms show ?thesis by (simp add: store_inv_handle_feedback)
  qed
qed

lemma store_inv_run: "store_inv s \<Longrightarrow> store_inv (run acts s)"
  by (induction acts arbitrary: s) (simp_all add: store_inv_step)

lemma oa_messages_roles_ok:
  assumes "roles_ok h"
  shows "oa_messages sys h = \<lparr>role = ''system'', content = sys\<rparr> # h"
proof -
  have "map (\<lambda>m. \<lparr>role = (if role m = ''model'' then ''assistant'' else role m),
               content = content m\<rparr>) h = h"
    using assms by (induction h) (auto simp: roles_ok_def)
  then show ?thesis by (simp add: oa_messages_def)
qed




text \<open>
  Claim C9. In every session state with pending feedback the chat input is disabled, so
  whatever the user submits the chat section leaves the session state as it is and causes
  no event; a chat section that extends the store started without pending feedback; and
  without pending feedback a non-empty prompt is appended, answered, and makes feedback
  pending.
\<close>

theorem prompt_only_when_open:
  "(feedback_pending s \<longrightarrow> chat_section e label sys submitted s = (Inr (), s, [])) \<and>
   (messages (fst (snd (chat_section e label sys submitted s))) \<noteq> messages s
      \<longrightarrow> \<not> feedback_pending s) \<and>
   (\<not> feedback_pending s \<and> p \<noteq> [] \<longrightarrow>
      (\<exists>reply. fst (get_ai_response e label (messages s @ [\<lparr>role = ''user'', content = p\<rparr>]) sys)
                 = Inr reply \<and>
               fst (snd (chat_section e label sys (Some p) s)) =
                 s\<lparr>messages := messages s @
                      [\<lparr>role = ''user'', content = p\<rparr>, \<lparr>role = ''assistant'', content = reply\<rparr>],
                   feedback_pending := True\<rparr>))"
proof (intro conjI impI)
  assume "feedback_pending s"
  then show "chat_section e label sys submitted s = (Inr (), s, [])"
    by (rule chat_section_pending_eq)
next
  assume "messages (fst (snd (chat_section e label sys submitted s))) \<noteq> messages s"
  then show "\<not> feedback_pending s"
    using chat_section_pending_eq [of s e label sys submitted] by auto
next
  assume a: "\<not> feedback_pending s \<and> p \<noteq> []"
  obtain reply where r:
    "fst (get_ai_response e label (messages s @ [\<lparr>role = ''user'', content = p\<rparr>]) sys) = Inr reply"
    using get_ai_response_Inr by blast
  from a r have "chat_section e label sys (Some p) s =
           (Inr (),
            s\<lparr>messages := messages s @
                 [\<lparr>role = ''user'', content = p\<rparr>, \<lparr>role = ''assistant'', content = reply\<rparr>],
              feedback_pending := True\<rparr>,
            snd (get_ai_response e label (messages s @ [\<lparr>role = ''user'', content = p\<rparr>]) sys) @
            snd (save_to_firebase e
              \<lparr>user_id = current_user s, model_name = label, prompt_ = p,
               full_response = reply, interaction_type = ''INITIAL_QUERY''\<rparr>))"
    by (intro chat_section_accept_eq) auto
  with r show "\<exists>reply. fst (get_ai_response e label
                   (messages s @ [\<lparr>role = ''user'', content = p\<rparr>]) sys) = Inr reply \<and>
               fst (snd (chat_section e label sys (Some p) s)) =
                 s\<lparr>messages := messages s @
                      [\<lparr>role = ''user'', content = p\<rparr>, \<lparr>role = ''assistant'', content = reply\<rparr>],
                   feedback_pending := True\<rparr>"
    by (intro exI [of _ reply]) simp
qed

theorem prompt_only_when_open_witness:
  "feedback_pending demo_session \<and>
   chat_section demo_env ''gemini-3-pro-preview'' ''Business Planning Assistant''
     (Some ''And what is a margin?'') demo_session = (Inr (), demo_session, []) \<and>
   \<not> feedback_pending open_session \<and>
   fst (snd (chat_section demo_env ''gemini-3-pro-preview'' ''Business Planning Assistant''
     (Some ''What is a break-even point?'') open_session)) = demo_session"
proof -
  have h1: "feedback_pending demo_session" by (simp add: demo_session_def)
  have h2: "\<not> feedback_pending open_session" by (simp add: open_session_def)
  have h3: "fst (get_ai_response demo_env ''gemini-3-pro-preview''
              (messages open_session @ [\<lparr>role = ''user'', content = ''What is a break-even point?''\<rparr>])
              ''Business Planning Assistant'') = Inr ''Fixed costs divided by unit margin.''"
    by (simp add: get_ai_response_def gemini_attempt_def demo_env_def MODEL_MAPPING_def)
  have h4: "open_session\<lparr>messages := messages open_session @
              [\<lparr>role = ''user'', content = ''What is a break-even point?''\<rparr>,
               \<lparr>role = ''assistant'', content = ''Fixed costs divided by unit margin.''\<rparr>],
              feedback_pending := True\<rparr> = demo_session"
    by (simp add: open_session_def demo_session_def)
  have h5: "''What is a break-even point?'' \<noteq> []" by simp
  show ?thesis
    using h1 h2 h3 h4 h5
      prompt_only_when_open [of demo_session demo_env "''gemini-3-pro-preview''"
        "''Business Planning Assistant''" "Some ''And what is a margin?''" "''x''"]
      prompt_only_when_open [of open_session demo_env "''gemini-3-pro-preview''"
        "''Business Planning Assistant''" "Some ''What is a break-even point?''"
        "''What is a break-even point?''"]
    by auto
qed

text \<open>
  Claim C10. After any sequence of interactions from the start of a session, every turn of
  the store has the role \<^verbatim>\<open>user\<close> or \<^verbatim>\<open>assistant\<close>. The history handed to
  \<open>get_ai_response\<close> is the store extended by a user turn: it has no turn of role
  \<^verbatim>\<open>model\<close>, and its translation for the second provider is the system message followed by
  the history itself, roles unchanged.
\<close>

theorem roles_user_or_assistant:
  "(\<forall>m \<in> set (messages (run acts initial_session)). role m = ''user'' \<or> role m = ''assistant'') \<and>
   filter (\<lambda>m. role m = ''model'')
     (messages (run acts initial_session) @ [\<lparr>role = ''user'', content = p\<rparr>]) = [] \<and>
   oa_messages sys (messages (run acts initial_session) @ [\<lparr>role = ''user'', content = p\<rparr>]) =
     \<lparr>role = ''system'', content = sys\<rparr> #
     (messages (run acts initial_session) @ [\<lparr>role = ''user'', content = p\<rparr>])"
proof -
  have "store_inv (run acts initial_session)"
    by (rule store_inv_run [OF store_inv_initial])
  then have ok: "roles_ok (messages (run acts initial_session))"
    by (simp add: store_inv_def)
  then have ok2: "roles_ok (messages (run acts initial_session) @ [\<lparr>role = ''user'', content = p\<rparr>])"
    by (simp add: roles_ok_append) (simp add: roles_ok_def)
  have "\<forall>m \<in> set (messages (run acts initial_session)). role m = ''user'' \<or> role m = ''assistant''"
    using ok by (simp add: roles_ok_def list_all_iff)
  moreover have "filter (\<lambda>m. role m = ''model'')
     (messages (run acts initial_session) @ [\<lparr>role = ''user'', content = p\<rparr>]) = []"
    using ok by (auto simp: roles_ok_def list_all_iff filter_empty_conv)
  ultimately show ?thesis
    using oa_messages_roles_ok [OF ok2] by simp
qed

theorem roles_user_or_assistant_witness:
  "map role (messages (run demo_run initial_session)) =
     [''user'', ''assistant'', ''user'', ''assistant''] \<and>
   map role (oa_messages ''Business Planning Assistant''
     (messages (run demo_run initial_session) @ [\<lparr>role = ''user'', content = ''Why?''\<rparr>])) =
     [''system'', ''user'', ''assistant'', ''user'', ''assistant'', ''user'']"
proof -
  have r: "map role (messages (run demo_run initial_session)) =
     [''user'', ''assistant'', ''user'', ''assistant'']"
    by (simp add: demo_run_def initial_session_def AUTHORIZED_STUDENT_IDS_def chat_section_def
        st_chat_input_def handle_feedback_def save_to_firebase_def get_ai_response_def
        gemini_attempt_def openai_attempt_def MODEL_MAPPING_def unavailable_def
        demo_env_def env_502_def Let_def)
  show ?thesis
    using r roles_user_or_assistant [of demo_run "''Why?''" "''Business Planning Assistant''"]
    by simp
qed

end
